theory Spec2Isabelle
  imports Complex_Main "HOL-Library.Char_ord" "HOL-Library.List_Lexorder" "HOL-Library.Multiset"
    "HOL-Library.Sublist"
begin

section \<open>Data model\<close>

text \<open>
  The documents of \<^verbatim>\<open>src/lib/db.ts\<close>. A JavaScript \<^verbatim>\<open>number\<close> is a finite value, one
  of the two infinities, or NaN; only its comparison with zero and the NaN test are used by
  the code, so finite values are kept as rationals. Strings are lists of 8-bit characters
  compared lexicographically, as the store compares the strings of a range query. The
  revision marker \<^verbatim>\<open>_rev\<close> that the store attaches to a document is not a field of the
  model, so \<^verbatim>\<open>toJSON()\<close> followed by \<^verbatim>\<open>delete _rev\<close> is the identity on a document.
\<close>

datatype number = NaN | NegInfinity | Finite rat | PosInfinity

fun leZero :: "number \<Rightarrow> bool" where
  "leZero NaN = False"
| "leZero NegInfinity = True"
| "leZero (Finite r) = (r \<le> 0)"
| "leZero PosInfinity = False"

fun isNaN :: "number \<Rightarrow> bool" where
  "isNaN NaN = True"
| "isNaN NegInfinity = False"
| "isNaN (Finite r) = False"
| "isNaN PosInfinity = False"

record budget =
  b_id :: string
  b_name :: string
  b_month :: string
  b_value :: number

record expense =
  e_id :: string
  e_cost :: number
  e_description :: string
  e_budget :: string
  e_date :: string

text \<open>
  The two collections of the database. The order of each list is the order in which the
  store enumerates its documents: \<^verbatim>\<open>findOne\<close> returns the first match in that order and
  \<^verbatim>\<open>find\<close> returns all matches in that order.
\<close>

record store =
  budgets :: "budget list"
  expenses :: "expense list"

text \<open>Every \<^verbatim>\<open>throw\<close> of the file, the null dereference of a \<^verbatim>\<open>findOne\<close> that found
  nothing, and the store's refusal to insert a second document under an existing key.\<close>

datatype error =
    TotalName
  | BudgetNameInvalid
  | BudgetValueInvalid
  | DuplicateBudget
  | ExpenseDescriptionInvalid
  | ExpenseCostInvalid
  | BudgetHasExpenses
  | NullDocument
  | InsertConflict

text \<open>An operation either resolves, giving the new store, or throws, leaving the store as
  it was at the moment of the throw.\<close>

datatype outcome = Done store | Threw error store

text \<open>
  What the code takes from outside: the validity tests of the date library
  (\<^verbatim>\<open>moment(x, 'YYYY-MM').isValid()\<close> and \<^verbatim>\<open>moment(x, 'YYYY-MM-DD').isValid()\<close>) and the
  clock (\<^verbatim>\<open>moment().format('YYYY-MM')\<close> and \<^verbatim>\<open>moment().format('YYYY-MM-DD')\<close>).
\<close>

record env =
  monthValid :: "string \<Rightarrow> bool"
  dateValid :: "string \<Rightarrow> bool"
  currentMonth :: string
  today :: string

section \<open>Strings\<close>

text \<open>\<^verbatim>\<open>String.prototype.trim\<close> removes white space and line terminators from both ends; among
  the characters of the model these are the codes 9 to 13, 32 and 160.\<close>

definition isSpace :: "char \<Rightarrow> bool" where
  "isSpace c = (of_char c \<in> {9, 10, 11, 12, 13, 32, 160 :: nat})"

definition trim :: "string \<Rightarrow> string" where
  "trim s = rev (dropWhile isSpace (rev (dropWhile isSpace s)))"

text \<open>The range query \<^verbatim>\<open>.gte(`${month}-01`).lte(`${month}-31`)\<close> on a date.\<close>

definition inMonth :: "string \<Rightarrow> string \<Rightarrow> bool" where
  "inMonth month date = (month @ ''-01'' \<le> date \<and> date \<le> month @ ''-31'')"

section \<open>The document store\<close>

text \<open>
  \<^verbatim>\<open>insert\<close> rejects a document whose primary key is already present; \<^verbatim>\<open>bulkInsert\<close>
  inserts the documents one after the other and leaves out, without throwing, those whose
  key is already present; \<^verbatim>\<open>update\<close> and \<^verbatim>\<open>remove\<close> of a document act on the document
  stored under its primary key.
\<close>

definition insertDoc :: "('d \<Rightarrow> string) \<Rightarrow> 'd \<Rightarrow> 'd list \<Rightarrow> 'd list option" where
  "insertDoc key d ds = (if key d \<in> set (map key ds) then None else Some (ds @ [d]))"

definition bulkInsert :: "('d \<Rightarrow> string) \<Rightarrow> 'd list \<Rightarrow> 'd list \<Rightarrow> 'd list" where
  "bulkInsert key new ds =
     fold (\<lambda>d acc. if key d \<in> set (map key acc) then acc else acc @ [d]) new ds"

definition updateDoc :: "('d \<Rightarrow> string) \<Rightarrow> string \<Rightarrow> ('d \<Rightarrow> 'd) \<Rightarrow> 'd list \<Rightarrow> 'd list" where
  "updateDoc key k f ds = map (\<lambda>d. if key d = k then f d else d) ds"


section \<open>Operations of \<^verbatim>\<open>DB\<close>\<close>

text \<open>Modelled from the spec: the comparators \<^verbatim>\<open>sortByName\<close> and \<^verbatim>\<open>sortByDate\<close> of
  \<^verbatim>\<open>./utils\<close> are not among the sources; the spec says budgets are sorted by name and
  exported expenses by date, ascending.\<close>

definition sortByName :: "budget list \<Rightarrow> budget list" where
  "sortByName bs = sort_key b_name bs"

definition sortByDate :: "expense list \<Rightarrow> expense list" where
  "sortByDate es = sort_key e_date es"

definition fetchBudgets :: "store \<Rightarrow> string \<Rightarrow> budget list" where
  "fetchBudgets db month = sortByName (filter (\<lambda>d. b_month d = month) (budgets db))"

text \<open>
  \<^verbatim>\<open>saveBudget\<close>. The argument \<open>newId\<close> is the value of
  \<^verbatim>\<open>`${Date.now().toString()}:${Math.random()}`\<close> at the call.
\<close>

definition cascadeRename :: "string \<Rightarrow> string \<Rightarrow> string \<Rightarrow> store \<Rightarrow> store" where
  "cascadeRename month oldName newName db =
     (let matchingExpenses =
            filter (\<lambda>e. inMonth month (e_date e) \<and> e_budget e = oldName) (expenses db)
      in fold (\<lambda>expense db'.
                 db'\<lparr>expenses := updateDoc e_id (e_id expense) (\<lambda>d. d\<lparr>e_budget := newName\<rparr>)
                                     (expenses db')\<rparr>)
              matchingExpenses db)"

definition normalizeMonth :: "env \<Rightarrow> budget \<Rightarrow> budget" where
  "normalizeMonth env budget =
     (if \<not> monthValid env (b_month budget) then budget\<lparr>b_month := currentMonth env\<rparr>
      else budget)"

definition saveBudget :: "env \<Rightarrow> string \<Rightarrow> store \<Rightarrow> budget \<Rightarrow> outcome" where
  "saveBudget env newId db budget0 =
     (if b_name budget0 = ''Total'' then Threw TotalName db
      else if length (trim (b_name budget0)) = 0 then Threw BudgetNameInvalid db
      else if leZero (b_value budget0) \<or> isNaN (b_value budget0) then Threw BudgetValueInvalid db
      else
        let budget = normalizeMonth env budget0 in
        case find (\<lambda>d. b_month d = b_month budget \<and> b_name d = b_name budget
                        \<and> b_id d \<noteq> b_id budget) (budgets db) of
          Some duplicateBudget \<Rightarrow> Threw DuplicateBudget db
        | None \<Rightarrow>
            if b_id budget = ''newBudget'' then
              (case insertDoc b_id (budget\<lparr>b_id := newId\<rparr>) (budgets db) of
                 None \<Rightarrow> Threw InsertConflict db
               | Some bs \<Rightarrow> Done (db\<lparr>budgets := bs\<rparr>))
            else
              (case find (\<lambda>d. b_id d = b_id budget) (budgets db) of
                 None \<Rightarrow> Threw NullDocument db
               | Some existingBudget \<Rightarrow>
                   let oldName = b_name existingBudget;
                       newName = b_name budget;
                       db1 = db\<lparr>budgets :=
                               updateDoc b_id (b_id existingBudget)
                                 (\<lambda>d. d\<lparr>b_name := b_name budget, b_value := b_value budget\<rparr>)
                                 (budgets db)\<rparr>
                   in if oldName \<noteq> newName
                      then Done (cascadeRename (b_month existingBudget) oldName newName db1)
                      else Done db1))"

text \<open>
  \<^verbatim>\<open>saveExpense\<close>. \<open>newBudgetId\<close> is the identifier generated inside the nested
  \<^verbatim>\<open>saveBudget\<close> call and \<open>newId\<close> the one generated for the expense.
\<close>

definition normalizeDate :: "env \<Rightarrow> expense \<Rightarrow> expense" where
  "normalizeDate env expense =
     (if \<not> dateValid env (e_date expense) then expense\<lparr>e_date := today env\<rparr> else expense)"

definition resolveBudget :: "store \<Rightarrow> expense \<Rightarrow> expense" where
  "resolveBudget db expense =
     (let expense1 =
        (if (e_budget expense = [] \<or> e_budget expense = ''Misc'')
            \<and> e_id expense = ''newExpense''
         then
           (case find (\<lambda>d. e_description d = e_description expense) (expenses db) of
              None \<Rightarrow> expense
            | Some matchingExpense \<Rightarrow>
                if e_budget matchingExpense \<noteq> []
                then expense\<lparr>e_budget := e_budget matchingExpense\<rparr>
                else expense)
         else expense)
      in if e_budget expense1 = [] then expense1\<lparr>e_budget := ''Misc''\<rparr> else expense1)"

definition ensureBudget :: "env \<Rightarrow> string \<Rightarrow> store \<Rightarrow> expense \<Rightarrow> outcome" where
  "ensureBudget env newBudgetId db expense =
     (case find (\<lambda>d. b_month d = take 7 (e_date expense) \<and> b_name d = e_budget expense)
                (budgets db) of
        Some existingBudget \<Rightarrow> Done db
      | None \<Rightarrow>
          saveBudget env newBudgetId db
            \<lparr>b_id = ''newBudget'', b_name = e_budget expense,
             b_month = take 7 (e_date expense), b_value = Finite 100\<rparr>)"

definition saveExpense :: "env \<Rightarrow> string \<Rightarrow> string \<Rightarrow> store \<Rightarrow> expense \<Rightarrow> outcome" where
  "saveExpense env newBudgetId newId db expense0 =
     (if length (trim (e_description expense0)) = 0 then Threw ExpenseDescriptionInvalid db
      else if leZero (e_cost expense0) \<or> isNaN (e_cost expense0) then Threw ExpenseCostInvalid db
      else
        let expense = resolveBudget db (normalizeDate env expense0) in
        case ensureBudget env newBudgetId db expense of
          Threw err db1 \<Rightarrow> Threw err db1
        | Done db1 \<Rightarrow>
            if e_id expense = ''newExpense'' then
              (case insertDoc e_id (expense\<lparr>e_id := newId\<rparr>) (expenses db1) of
                 None \<Rightarrow> Threw InsertConflict db1
               | Some es \<Rightarrow> Done (db1\<lparr>expenses := es\<rparr>))
            else
              (case find (\<lambda>d. e_id d = e_id expense) (expenses db1) of
                 None \<Rightarrow> Threw NullDocument db1
               | Some existingExpense \<Rightarrow>
                   Done (db1\<lparr>expenses :=
                           updateDoc e_id (e_id existingExpense)
                             (\<lambda>d. d\<lparr>e_cost := e_cost expense,
                                    e_description := e_description expense,
                                    e_budget := e_budget expense,
                                    e_date := e_date expense\<rparr>)
                             (expenses db1)\<rparr>)))"




text \<open>\<^verbatim>\<open>deleteAllData\<close> empties both collections (the erasure of the remote copy is outside
  the model).\<close>

definition deleteAllData :: "store \<Rightarrow> store" where
  "deleteAllData db = \<lparr>budgets = [], expenses = []\<rparr>"

definition importData :: "store \<Rightarrow> bool \<Rightarrow> budget list \<Rightarrow> expense list \<Rightarrow> outcome" where
  "importData db replaceData bs es =
     (let db1 = (if replaceData then deleteAllData db else db)
      in Done \<lparr>budgets = bulkInsert b_id bs (budgets db1),
               expenses = bulkInsert e_id es (expenses db1)\<rparr>)"

definition exportAllData :: "store \<Rightarrow> budget list \<times> expense list" where
  "exportAllData db =
     (let sortedBudgets =
            sortByName (filter (\<lambda>d. ''2000-01'' \<le> b_month d \<and> b_month d \<le> ''2100-12'')
                               (budgets db));
          sortedExpenses =
            sortByDate (filter (\<lambda>d. ''2000-01-01'' \<le> e_date d \<and> e_date d \<le> ''2100-12-31'')
                               (expenses db))
      in (sortedBudgets, sortedExpenses))"

section \<open>The uniqueness invariant\<close>

text \<open>No two stored budgets have the same month and name.\<close>

definition uniqueNames :: "budget list \<Rightarrow> bool" where
  "uniqueNames bs = distinct (map (\<lambda>b. (b_month b, b_name b)) bs)"

section \<open>Sample data\<close>

text \<open>
  A sample environment and sample documents, on which the operations are evaluated below.
  The clock reads 17 May 2024, and the validity tests accept exactly the zero-padded calendar
  strings \<^verbatim>\<open>YYYY-MM\<close> and \<^verbatim>\<open>YYYY-MM-DD\<close> (the date library accepts these, and more).
\<close>

definition isDigit :: "char \<Rightarrow> bool" where
  "isDigit c = (CHR ''0'' \<le> c \<and> c \<le> CHR ''9'')"

definition digitVal :: "char \<Rightarrow> nat" where
  "digitVal c = of_char c - 48"

definition strictMonth :: "string \<Rightarrow> bool" where
  "strictMonth m =
     (length m = 7 \<and> list_all isDigit (take 4 m) \<and> m ! 4 = CHR ''-''
      \<and> list_all isDigit (drop 5 m) \<and> ''01'' \<le> drop 5 m \<and> drop 5 m \<le> ''12'')"

definition leapYear :: "string \<Rightarrow> bool" where
  "leapYear y =
     (let n = foldl (\<lambda>a c. 10 * a + digitVal c) 0 y
      in n mod 4 = 0 \<and> (n mod 100 \<noteq> 0 \<or> n mod 400 = 0))"

definition lastDay :: "string \<Rightarrow> string \<Rightarrow> string" where
  "lastDay y m =
     (if m \<in> set [''04'', ''06'', ''09'', ''11''] then ''30''
      else if m = ''02'' then (if leapYear y then ''29'' else ''28'')
      else ''31'')"

definition strictDate :: "string \<Rightarrow> bool" where
  "strictDate d =
     (length d = 10 \<and> strictMonth (take 7 d) \<and> d ! 7 = CHR ''-''
      \<and> list_all isDigit (drop 8 d) \<and> ''01'' \<le> drop 8 d
      \<and> drop 8 d \<le> lastDay (take 4 d) (take 2 (drop 5 d)))"

definition sample_env :: env where
  "sample_env = \<lparr>monthValid = strictMonth, dateValid = strictDate,
                 currentMonth = ''2024-05'', today = ''2024-05-17''\<rparr>"

definition sample_gen :: "nat \<Rightarrow> string" where
  "sample_gen k = ''1715904000000:0.'' @ replicate (Suc k) (CHR ''7'')"

definition groceries_may :: budget where
  "groceries_may = \<lparr>b_id = ''1714521600000:0.25'', b_name = ''Groceries'',
                     b_month = ''2024-05'', b_value = Finite 300\<rparr>"

definition rent_may :: budget where
  "rent_may = \<lparr>b_id = ''1714521600001:0.5'', b_name = ''Rent'',
                b_month = ''2024-05'', b_value = Finite 900\<rparr>"

definition old_budget :: budget where
  "old_budget = \<lparr>b_id = ''946684800000:0.125'', b_name = ''Rent'',
                  b_month = ''1999-12'', b_value = Finite 400\<rparr>"

definition bread :: expense where
  "bread = \<lparr>e_id = ''1715299200000:0.75'', e_cost = Finite 3, e_description = ''Bread'',
             e_budget = ''Groceries'', e_date = ''2024-05-10''\<rparr>"

definition may_store :: store where
  "may_store = \<lparr>budgets = [groceries_may, rent_may], expenses = [bread]\<rparr>"

definition old_store :: store where
  "old_store = \<lparr>budgets = [old_budget], expenses = []\<rparr>"







definition rent_as_groceries :: budget where
  "rent_as_groceries = \<lparr>b_id = ''1714521600001:0.5'', b_name = ''Groceries'',
                         b_month = ''2024-06'', b_value = Finite 900\<rparr>"


definition fees :: expense where
  "fees = \<lparr>e_id = ''newExpense'', e_cost = Finite 12, e_description = ''Bank fees'',
            e_budget = ''Total'', e_date = ''2024-05-20''\<rparr>"








section \<open>Evaluating the operations\<close>

text \<open>The equations that unfold the sample documents, and those that unfold a run of
  \<^verbatim>\<open>saveBudget\<close> in the sample environment.\<close>

lemmas sample_defs = groceries_may_def rent_may_def bread_def may_store_def sample_gen_def

lemmas run_defs = saveBudget_def Let_def normalizeMonth_def sample_env_def strictMonth_def
  isDigit_def trim_def isSpace_def insertDoc_def updateDoc_def cascadeRename_def inMonth_def

section \<open>Reserved name\<close>

text \<open>
  C8. For every month and every value (and every store, identifier and environment),
  \<^verbatim>\<open>saveBudget\<close> on a budget whose name is exactly "Total" throws, and the store at the
  throw is the store it was called on: nothing has been written.
\<close>

theorem saveBudget_Total_rejected:
  "saveBudget env newId db \<lparr>b_id = i, b_name = ''Total'', b_month = m, b_value = v\<rparr>
     = Threw TotalName db"
  by (simp add: saveBudget_def)

section \<open>Export, import and copy\<close>

lemma bulkInsert_fresh:
  "distinct (map key new) \<Longrightarrow> set (map key new) \<inter> set (map key ds) = {}
   \<Longrightarrow> bulkInsert key new ds = ds @ new"
proof (induction new arbitrary: ds)
  case Nil
  then show ?case by (simp add: bulkInsert_def)
next
  case (Cons d new)
  have step: "bulkInsert key (d # new) ds = bulkInsert key new (ds @ [d])"
    using Cons.prems(2) by (simp add: bulkInsert_def)
  have "bulkInsert key new (ds @ [d]) = (ds @ [d]) @ new"
  proof (rule Cons.IH)
    show "distinct (map key new)" using Cons.prems(1) by simp
    show "set (map key new) \<inter> set (map key (ds @ [d])) = {}"
      using Cons.prems by auto
  qed
  with step show ?case by simp
qed

lemma mset_sortByName: "mset (sortByName bs) = mset bs"
  by (simp add: sortByName_def)

lemma mset_sortByDate: "mset (sortByDate es) = mset es"
  by (simp add: sortByDate_def)

text \<open>
  C10. \<^verbatim>\<open>exportAllData\<close> returns exactly the budgets whose month lies in the inclusive
  string range from "2000-01" to "2100-12" and exactly the expenses whose date lies in the
  inclusive string range from "2000-01-01" to "2100-12-31", each as often as it is stored;
  every other record is left out.
\<close>

theorem exportAllData_range:
  "mset (fst (exportAllData db))
     = filter_mset (\<lambda>d. ''2000-01'' \<le> b_month d \<and> b_month d \<le> ''2100-12'') (mset (budgets db))
   \<and> mset (snd (exportAllData db))
     = filter_mset (\<lambda>d. ''2000-01-01'' \<le> e_date d \<and> e_date d \<le> ''2100-12-31'')
         (mset (expenses db))"
  by (simp add: exportAllData_def mset_sortByName mset_sortByDate)

lemma distinct_ids_sortByName:
  "distinct (map b_id (sortByName bs)) = distinct (map b_id bs)"
proof -
  have "mset (map b_id (sortByName bs)) = mset (map b_id bs)"
    by (simp add: mset_sortByName)
  then show ?thesis by (rule mset_eq_imp_distinct_iff)
qed

lemma distinct_ids_sortByDate:
  "distinct (map e_id (sortByDate es)) = distinct (map e_id es)"
proof -
  have "mset (map e_id (sortByDate es)) = mset (map e_id es)"
    by (simp add: mset_sortByDate)
  then show ?thesis by (rule mset_eq_imp_distinct_iff)
qed

lemma bulkInsert_empty:
  "distinct (map key new) \<Longrightarrow> bulkInsert key new [] = new"
  using bulkInsert_fresh [of key new "[]"] by simp

text \<open>
  C5, for the stores that the export covers. For every store whose documents have pairwise
  distinct identifiers (the store's primary-key rule), whose budgets all have a month in the
  range from "2000-01" to "2100-12" and whose expenses all have a date in the range from
  "2000-01-01" to "2100-12-31",
  \<^verbatim>\<open>exportAllData\<close> followed by \<^verbatim>\<open>importData\<close> with \<^verbatim>\<open>replaceData = true\<close>
  (on an empty store, or on any other, which the import empties first) resolves and gives a
  store holding exactly the original budgets and expenses, identifier for identifier and
  field for field.
\<close>

theorem export_import_roundtrip:
  assumes ids_b: "distinct (map b_id (budgets db))"
    and ids_e: "distinct (map e_id (expenses db))"
    and range_b: "list_all (\<lambda>d. ''2000-01'' \<le> b_month d \<and> b_month d \<le> ''2100-12'') (budgets db)"
    and range_e: "list_all (\<lambda>d. ''2000-01-01'' \<le> e_date d \<and> e_date d \<le> ''2100-12-31'')
                    (expenses db)"
  shows "\<exists>db'. importData target True (fst (exportAllData db)) (snd (exportAllData db)) = Done db'
           \<and> mset (budgets db') = mset (budgets db)
           \<and> mset (expenses db') = mset (expenses db)"
proof -
  have fb: "filter (\<lambda>d. ''2000-01'' \<le> b_month d \<and> b_month d \<le> ''2100-12'') (budgets db) = budgets db"
    using range_b by (simp add: list_all_iff)
  have fe: "filter (\<lambda>d. ''2000-01-01'' \<le> e_date d \<and> e_date d \<le> ''2100-12-31'') (expenses db)
              = expenses db"
    using range_e by (simp add: list_all_iff)
  have ex: "exportAllData db = (sortByName (budgets db), sortByDate (expenses db))"
    by (simp add: exportAllData_def fb fe)
  have ib: "bulkInsert b_id (sortByName (budgets db)) [] = sortByName (budgets db)"
    using ids_b by (simp add: bulkInsert_empty distinct_ids_sortByName)
  have ie: "bulkInsert e_id (sortByDate (expenses db)) [] = sortByDate (expenses db)"
    using ids_e by (simp add: bulkInsert_empty distinct_ids_sortByDate)
  have "importData target True (fst (exportAllData db)) (snd (exportAllData db))
          = Done \<lparr>budgets = sortByName (budgets db), expenses = sortByDate (expenses db)\<rparr>"
    by (simp add: importData_def deleteAllData_def ex ib ie)
  then show ?thesis
    by (simp add: mset_sortByName mset_sortByDate)
qed

theorem export_import_roundtrip_witness:
  "distinct (map b_id (budgets may_store)) \<and> distinct (map e_id (expenses may_store))
   \<and> (\<exists>db'. importData \<lparr>budgets = [], expenses = []\<rparr> True
                 (fst (exportAllData may_store)) (snd (exportAllData may_store)) = Done db'
           \<and> mset (budgets db') = mset (budgets may_store)
           \<and> mset (expenses db') = mset (expenses may_store))"
proof -
  have h1: "distinct (map b_id (budgets may_store))" by (simp add: sample_defs)
  have h2: "distinct (map e_id (expenses may_store))" by (simp add: sample_defs)
  have h3: "list_all (\<lambda>d. ''2000-01'' \<le> b_month d \<and> b_month d \<le> ''2100-12'') (budgets may_store)"
    by (simp add: sample_defs)
  have h4: "list_all (\<lambda>d. ''2000-01-01'' \<le> e_date d \<and> e_date d \<le> ''2100-12-31'')
              (expenses may_store)"
    by (simp add: sample_defs)
  show ?thesis
    using h1 h2 export_import_roundtrip [OF h1 h2 h3 h4, of "\<lparr>budgets = [], expenses = []\<rparr>"]
    by blast
qed

text \<open>
  The round trip as C5 states it, for every store, fails: a budget of December 1999 is not
  exported, so the store rebuilt from the export is empty.
\<close>

theorem export_import_drops_old_budget:
  "importData \<lparr>budgets = [], expenses = []\<rparr> True
      (fst (exportAllData old_store)) (snd (exportAllData old_store))
     = Done \<lparr>budgets = [], expenses = []\<rparr>
   \<and> budgets old_store = [old_budget]"
  by (simp add: importData_def exportAllData_def deleteAllData_def bulkInsert_def
        sortByName_def sortByDate_def old_store_def old_budget_def)


lemma length_fetchBudgets:
  "length (fetchBudgets db month) = length (filter (\<lambda>d. b_month d = month) (budgets db))"
  by (simp add: fetchBudgets_def sortByName_def)

lemma set_fetchBudgets: "set (fetchBudgets db month) \<subseteq> set (budgets db)"
  by (auto simp: fetchBudgets_def sortByName_def)







section \<open>The month of a date\<close>

text \<open>
  The range query that selects the expenses of a month selects exactly the dates made of the
  month, a hyphen and a day part between "01" and "31" in string order; for a month of
  seven characters these dates have the month as their first seven characters.
\<close>

lemma between_common_prefix:
  fixes p :: string
  shows "p @ a \<le> d \<and> d \<le> p @ b \<longleftrightarrow> (\<exists>r. d = p @ r \<and> a \<le> r \<and> r \<le> b)"
proof (induction p arbitrary: d)
  case Nil
  then show ?case by simp
next
  case (Cons c p)
  show ?case
  proof (cases d)
    case Nil
    then show ?thesis by simp
  next
    case (Cons y d')
    have "(c # p) @ a \<le> d \<and> d \<le> (c # p) @ b \<longleftrightarrow> y = c \<and> p @ a \<le> d' \<and> d' \<le> p @ b"
      using Cons by auto
    also have "\<dots> \<longleftrightarrow> y = c \<and> (\<exists>r. d' = p @ r \<and> a \<le> r \<and> r \<le> b)"
      using Cons.IH [of d'] by simp
    also have "\<dots> \<longleftrightarrow> (\<exists>r. d = (c # p) @ r \<and> a \<le> r \<and> r \<le> b)"
      using Cons by auto
    finally show ?thesis .
  qed
qed

lemma inMonth_iff:
  "inMonth month date \<longleftrightarrow> (\<exists>day. date = month @ ''-'' @ day \<and> ''01'' \<le> day \<and> day \<le> ''31'')"
proof -
  have "inMonth month date \<longleftrightarrow> (month @ ''-'') @ ''01'' \<le> date \<and> date \<le> (month @ ''-'') @ ''31''"
    by (simp add: inMonth_def)
  also have "\<dots> \<longleftrightarrow> (\<exists>day. date = (month @ ''-'') @ day \<and> ''01'' \<le> day \<and> day \<le> ''31'')"
    by (rule between_common_prefix)
  finally show ?thesis by simp
qed

lemma inMonth_prefix: "inMonth month date \<Longrightarrow> length month = 7 \<Longrightarrow> take 7 date = month"
  by (auto simp: inMonth_iff)

section \<open>Deleting a budget\<close>






section \<open>Renaming a budget\<close>







section \<open>Uniqueness of budget names within a month\<close>


lemma find_None_iff: "find P xs = None \<longleftrightarrow> (\<forall>x\<in>set xs. \<not> P x)"
  by (induction xs) auto

text \<open>
  What the duplicate test of \<^verbatim>\<open>saveBudget\<close> achieves: an input that passes the name and
  value tests is rejected when another budget has its month, as normalised, and its name;
  and an insert that resolves keeps the (month, name) pairs of the stored budgets distinct.
\<close>

lemma saveBudget_duplicate_rejected:
  assumes "b_name upd \<noteq> ''Total''" and "trim (b_name upd) \<noteq> []"
    and "\<not> leZero (b_value upd)" and "\<not> isNaN (b_value upd)"
    and "\<exists>d\<in>set (budgets db). b_month d = b_month (normalizeMonth env upd)
           \<and> b_name d = b_name upd \<and> b_id d \<noteq> b_id upd"
  shows "saveBudget env newId db upd = Threw DuplicateBudget db"
proof -
  have norm: "b_id (normalizeMonth env upd) = b_id upd"
      "b_name (normalizeMonth env upd) = b_name upd"
    by (simp_all add: normalizeMonth_def)
  have "find (\<lambda>d. b_month d = b_month (normalizeMonth env upd) \<and> b_name d = b_name upd
                   \<and> b_id d \<noteq> b_id upd) (budgets db) \<noteq> None"
    using assms(5) by (auto simp: find_None_iff)
  then show ?thesis
    using assms(1-4) by (auto simp: saveBudget_def Let_def norm)
qed

lemma saveBudget_insert_unique:
  assumes uniq: "uniqueNames (budgets db)"
    and sentinel: "''newBudget'' \<notin> set (map b_id (budgets db))"
    and new: "b_id upd = ''newBudget''"
    and saved: "saveBudget env newId db upd = Done db'"
  shows "uniqueNames (budgets db')"
proof -
  let ?n = "normalizeMonth env upd"
  have norm: "b_id ?n = b_id upd" "b_name ?n = b_name upd"
    by (simp_all add: normalizeMonth_def)
  have nodup: "find (\<lambda>d. b_month d = b_month ?n \<and> b_name d = b_name upd
                          \<and> b_id d \<noteq> b_id upd) (budgets db) = None"
    using saved by (simp add: saveBudget_def Let_def norm split: if_splits option.splits)
  have nodup': "find (\<lambda>d. b_month d = b_month ?n \<and> b_name d = b_name upd
                          \<and> b_id d \<noteq> ''newBudget'') (budgets db) = None"
    using nodup new by simp
  have db': "budgets db' = budgets db @ [?n\<lparr>b_id := newId\<rparr>]"
    using saved new
    by (auto simp: saveBudget_def Let_def norm nodup' insertDoc_def split: if_splits)
  have "b_id d \<noteq> b_id upd" if "d \<in> set (budgets db)" for d
    using sentinel new that by (auto simp: image_iff)
  then have "(b_month ?n, b_name upd) \<notin> set (map (\<lambda>b. (b_month b, b_name b)) (budgets db))"
    using nodup by (auto simp: find_None_iff)
  then show ?thesis
    using uniq by (simp add: uniqueNames_def db' norm)
qed

text \<open>
  C1. After a \<^verbatim>\<open>saveBudget\<close> that resolves, no two budgets of a month should share a name,
  also on the update path when the month of the input is not the stored month. The code
  looks for a duplicate among the budgets of the input's month and then renames the budget
  stored under the input's identifier, whose month it keeps. Here the store holds Groceries
  and Rent for May, with distinct names; the update of Rent to the name Groceries with the
  month June passes the name, value and duplicate tests and resolves, and two budgets named
  Groceries are stored for May. The same update with the month May is rejected as a
  duplicate.
\<close>

theorem saveBudget_update_duplicates_name:
  "uniqueNames (budgets may_store)
   \<and> monthValid sample_env (b_month rent_as_groceries)
   \<and> saveBudget sample_env (sample_gen 0) may_store rent_as_groceries
       = Done (may_store\<lparr>budgets := [groceries_may, rent_may\<lparr>b_name := ''Groceries''\<rparr>]\<rparr>)
   \<and> \<not> uniqueNames [groceries_may, rent_may\<lparr>b_name := ''Groceries''\<rparr>]
   \<and> saveBudget sample_env (sample_gen 0) may_store (rent_as_groceries\<lparr>b_month := ''2024-05''\<rparr>)
       = Threw DuplicateBudget may_store"
proof -
  have 1: "uniqueNames (budgets may_store)"
    by (simp add: uniqueNames_def sample_defs)
  have 2: "monthValid sample_env (b_month rent_as_groceries)"
    by (simp add: sample_env_def rent_as_groceries_def strictMonth_def isDigit_def)
  have 3: "saveBudget sample_env (sample_gen 0) may_store rent_as_groceries
       = Done (may_store\<lparr>budgets := [groceries_may, rent_may\<lparr>b_name := ''Groceries''\<rparr>]\<rparr>)"
    by (simp add: run_defs rent_as_groceries_def sample_defs)
  have 4: "\<not> uniqueNames [groceries_may, rent_may\<lparr>b_name := ''Groceries''\<rparr>]"
    by (simp add: uniqueNames_def sample_defs)
  have 5: "saveBudget sample_env (sample_gen 0) may_store (rent_as_groceries\<lparr>b_month := ''2024-05''\<rparr>)
       = Threw DuplicateBudget may_store"
    by (simp add: run_defs rent_as_groceries_def sample_defs)
  from 1 2 3 4 5 show ?thesis by simp
qed

section \<open>Saving an expense\<close>

lemma resolveBudget_fields:
  "e_id (resolveBudget db x) = e_id x" "e_date (resolveBudget db x) = e_date x"
  "e_cost (resolveBudget db x) = e_cost x" "e_description (resolveBudget db x) = e_description x"
  by (simp_all add: resolveBudget_def Let_def split: option.splits)









text \<open>
  C9. Let the budget field of a new expense resolve to "Total" (supplied, or inherited from a
  stored expense with the same description) when no budget named "Total" is stored for the
  month \<^verbatim>\<open>date[0:7]\<close> of the expense. Then \<^verbatim>\<open>saveExpense\<close> throws and the store at the throw
  is the store it was called on, so the expense is not inserted: the description and cost
  tests throw first when they fail, and otherwise the nested \<^verbatim>\<open>saveBudget\<close> throws on the
  reserved name.
\<close>

theorem saveExpense_Total_throws:
  assumes new: "e_id e = ''newExpense''"
    and total: "e_budget (resolveBudget db (normalizeDate env e)) = ''Total''"
    and nobudget: "\<not> (\<exists>b\<in>set (budgets db). b_month b = take 7 (e_date (normalizeDate env e))
                        \<and> b_name b = ''Total'')"
  shows "saveExpense env newBudgetId newId db e
           = Threw (if length (trim (e_description e)) = 0 then ExpenseDescriptionInvalid
                    else if leZero (e_cost e) \<or> isNaN (e_cost e) then ExpenseCostInvalid
                    else TotalName) db"
proof -
  let ?x = "resolveBudget db (normalizeDate env e)"
  have "find (\<lambda>d. b_month d = take 7 (e_date ?x) \<and> b_name d = e_budget ?x) (budgets db) = None"
    using nobudget total by (auto simp: find_None_iff resolveBudget_fields)
  then have "ensureBudget env newBudgetId db ?x = Threw TotalName db"
    using total by (simp add: ensureBudget_def saveBudget_def)
  then show ?thesis
    by (simp add: saveExpense_def Let_def)
qed

theorem saveExpense_Total_throws_witness:
  "e_budget (resolveBudget may_store (normalizeDate sample_env fees)) = ''Total''
   \<and> saveExpense sample_env (sample_gen 0) (sample_gen 1) may_store fees
       = Threw TotalName may_store"
proof -
  have valid: "strictDate ''2024-05-20''"
    by (simp add: strictDate_def strictMonth_def isDigit_def lastDay_def)
  have norm: "normalizeDate sample_env fees = fees"
    using valid by (simp add: normalizeDate_def sample_env_def fees_def)
  have total: "e_budget (resolveBudget may_store (normalizeDate sample_env fees)) = ''Total''"
    unfolding norm by (simp add: resolveBudget_def fees_def)
  have nobudget: "\<not> (\<exists>b\<in>set (budgets may_store).
                        b_month b = take 7 (e_date (normalizeDate sample_env fees))
                        \<and> b_name b = ''Total'')"
    unfolding norm by (simp add: fees_def sample_defs)
  have "e_id fees = ''newExpense''" by (simp add: fees_def)
  from saveExpense_Total_throws [OF this total nobudget, of "sample_gen 0" "sample_gen 1"]
  have "saveExpense sample_env (sample_gen 0) (sample_gen 1) may_store fees
          = Threw TotalName may_store"
    by (simp add: fees_def trim_def isSpace_def)
  with total show ?thesis by simp
qed

section \<open>Normalisation of months and dates\<close>










end
